theory Spec2Isabelle
  imports Main "HOL-Library.Sublist" "HOL-Library.AList"
begin

section \<open>Python strings\<close>

text \<open>
  A Python \<open>str\<close> is a sequence of Unicode code points, so it is modelled as a list of
  naturals; \<open>ord\<close> is the identity on a one-character string and \<open>chr n\<close> raises
  \<open>ValueError\<close> outside \<open>range(0x110000)\<close>. Literals of the source are written
  \<open>py_str ''...''\<close>. Bytes read from a file are a list of naturals too.
\<close>

type_synonym str = "nat list"
type_synonym bytes = "nat list"

definition py_str :: "string \<Rightarrow> str" where
  "py_str s = map of_char s"

datatype exn = IndexError | ValueError | KeyError | TypeError

definition chr :: "nat \<Rightarrow> exn + nat" where
  "chr n = (if n < 1114112 then Inr n else Inl ValueError)"

text \<open>\<open>s[i]\<close> for a non-negative index \<open>i\<close>.\<close>

definition py_index :: "str \<Rightarrow> nat \<Rightarrow> exn + nat" where
  "py_index s i = (if i < length s then Inr (s ! i) else Inl IndexError)"

text \<open>
  \<open>s.split(sep)\<close>: the pieces between the leftmost non-overlapping occurrences of
  \<open>sep\<close>. Python raises on an empty separator; the source only passes the literals
  \<open>"-"\<close> and \<open>" - "\<close>, and the model returns the string whole there.
\<close>

function py_split :: "str \<Rightarrow> str \<Rightarrow> str list" where
  "py_split sep s =
     (if sep = [] then [s]
      else if s = [] then [[]]
      else if prefix sep s then [] # py_split sep (drop (length sep) s)
      else (case py_split sep (tl s) of
              [] \<Rightarrow> [[hd s]]
            | p # ps \<Rightarrow> (hd s # p) # ps))"
  by pat_completeness auto
termination
  by (relation "measure (\<lambda>(sep, s). length s)") auto

declare py_split.simps [simp del]

text \<open>
  \<open>s.replace(old, new)\<close>: every non-overlapping occurrence of \<open>old\<close>, found from the
  left, is replaced by \<open>new\<close>. With an empty \<open>old\<close> Python puts \<open>new\<close> before every
  character and at the end.
\<close>

function py_replace :: "str \<Rightarrow> str \<Rightarrow> str \<Rightarrow> str" where
  "py_replace old new s =
     (if old = [] then new @ concat (map (\<lambda>c. c # new) s)
      else if s = [] then []
      else if prefix old s then new @ py_replace old new (drop (length old) s)
      else hd s # py_replace old new (tl s))"
  by pat_completeness auto
termination
  by (relation "measure (\<lambda>(old, new, s). length s)") auto

declare py_replace.simps [simp del]

text \<open>
  \<open>str.isspace\<close> on one code point (the code points CPython lists as whitespace), and
  \<open>s.strip()\<close>, which drops them from both ends.
\<close>

definition isspace :: "nat \<Rightarrow> bool" where
  "isspace c \<longleftrightarrow>
     (9 \<le> c \<and> c \<le> 13) \<or> (28 \<le> c \<and> c \<le> 32) \<or> c = 133 \<or> c = 160 \<or> c = 5760 \<or>
     (8192 \<le> c \<and> c \<le> 8202) \<or> c = 8232 \<or> c = 8233 \<or> c = 8239 \<or> c = 8287 \<or> c = 12288"

definition py_strip :: "str \<Rightarrow> str" where
  "py_strip s = rev (dropWhile isspace (rev (dropWhile isspace s)))"

text \<open>
  \<open>str.lower\<close> follows the Unicode case tables, which are no part of the repository:
  every function that lowercases takes it as the parameter \<open>lower\<close>. \<open>ascii_lower\<close> is
  what it does on ASCII text, for evaluating examples.
\<close>

definition ascii_lower :: "str \<Rightarrow> str" where
  "ascii_lower s = map (\<lambda>c. if 65 \<le> c \<and> c \<le> 90 then c + 32 else c) s"

text \<open>Truthiness of an optional string (\<open>None\<close> and \<open>""\<close> are falsy), and \<open>a or b\<close>.\<close>

definition truthy :: "str option \<Rightarrow> bool" where
  "truthy a = (case a of None \<Rightarrow> False | Some s \<Rightarrow> s \<noteq> [])"

definition py_or :: "str option \<Rightarrow> str option \<Rightarrow> str option" where
  "py_or a b = (if truthy a then a else b)"

section \<open>Voice record normalizer\<close>

definition globe :: str where
  "globe = [127760]"

definition white_flag :: str where
  "white_flag = [127987, 65039]"

text \<open>
  An exception raised inside a \<open>try\<close> is the value \<open>Inl e\<close>; \<open>raise_bind m f\<close> runs
  \<open>f\<close> on the result of \<open>m\<close> unless \<open>m\<close> raised.
\<close>

definition raise_bind :: "exn + 'a \<Rightarrow> ('a \<Rightarrow> exn + 'b) \<Rightarrow> exn + 'b" where
  "raise_bind m f = (case m of Inl e \<Rightarrow> Inl e | Inr x \<Rightarrow> f x)"

text \<open>The body of the \<open>try\<close> in \<open>get_flag_emoji\<close>; the handler around it is below.\<close>

definition flag_try :: "str \<Rightarrow> exn + str" where
  "flag_try locale =
     (if sublist (py_str ''-'') locale then
        (let code = last (py_split (py_str ''-'') locale) in
         raise_bind (py_index code 0) (\<lambda>c0.
         raise_bind (chr (c0 + 127397)) (\<lambda>a.
         raise_bind (py_index code 1) (\<lambda>c1.
         raise_bind (chr (c1 + 127397)) (\<lambda>b.
         Inr [a, b])))))
      else Inr globe)"

definition get_flag_emoji :: "str \<Rightarrow> str" where
  "get_flag_emoji locale = (case flag_try locale of Inl e \<Rightarrow> white_flag | Inr r \<Rightarrow> r)"

text \<open>
  A raw catalog entry is the engine's dictionary; the keys the source reads are fields.
  \<open>FriendlyName\<close> is optional, since the source guards its use with \<open>try\<close>.
\<close>

record raw_voice =
  ShortName :: str
  Gender :: str
  Locale :: str
  FriendlyName :: "str option"

record voice =
  v_id :: str
  v_name :: str
  v_gender :: str
  v_locale :: str
  v_flag :: str
  v_full_lang :: str

definition parse_voice :: "raw_voice \<Rightarrow> voice" where
  "parse_voice v =
     (let parts = py_split (py_str ''-'') (ShortName v);
          name = (if length parts > 2 then py_replace (py_str ''Neural'') [] (parts ! 2)
                  else ShortName v);
          full_lang = (case FriendlyName v of
                         Some f \<Rightarrow> last (py_split (py_str '' - '') f)
                       | None \<Rightarrow> Locale v)
      in \<lparr>v_id = ShortName v, v_name = name, v_gender = Gender v, v_locale = Locale v,
          v_flag = get_flag_emoji (Locale v), v_full_lang = full_lang\<rparr>)"

text \<open>
  The display name as the specification words it, for comparison with \<open>parse_voice\<close>:
  the third segment loses a trailing \<open>Neural\<close> and nothing else.
\<close>

definition spec_display_name :: "str \<Rightarrow> str" where
  "spec_display_name raw_id =
     (let parts = py_split (py_str ''-'') raw_id in
      if length parts > 2 then
        (if suffix (py_str ''Neural'') (parts ! 2)
         then take (length (parts ! 2) - length (py_str ''Neural'')) (parts ! 2)
         else parts ! 2)
      else raw_id)"

section \<open>Usage stats store\<close>

text \<open>
  What \<open>json.load\<close> returns: \<open>None\<close>, a bool, an int, a string, a list, or a dictionary
  (a list of key and value pairs in insertion order). JSON numbers with a fraction are
  floating point and are left out of the model.
\<close>

datatype json =
    JNull
  | JBool bool
  | JInt int
  | JStr str
  | JArr "json list"
  | JObj "(str \<times> json) list"

text \<open>\<open>d[k]\<close>, \<open>x + 1\<close> and \<open>d[k] = x\<close> on such values, with the exceptions Python raises.\<close>

definition getitem :: "json \<Rightarrow> str \<Rightarrow> exn + json" where
  "getitem d k =
     (case d of
        JObj kvs \<Rightarrow> (case map_of kvs k of None \<Rightarrow> Inl KeyError | Some x \<Rightarrow> Inr x)
      | _ \<Rightarrow> Inl TypeError)"

definition add_one :: "json \<Rightarrow> exn + json" where
  "add_one x =
     (case x of
        JInt n \<Rightarrow> Inr (JInt (n + 1))
      | JBool b \<Rightarrow> Inr (JInt ((if b then 1 else 0) + 1))
      | _ \<Rightarrow> Inl TypeError)"

definition setitem :: "json \<Rightarrow> str \<Rightarrow> json \<Rightarrow> exn + json" where
  "setitem d k x =
     (case d of
        JObj kvs \<Rightarrow> Inr (JObj (AList.update k x kvs))
      | _ \<Rightarrow> Inl TypeError)"

text \<open>\<open>stats[k] += 1\<close>\<close>

definition incr_key :: "str \<Rightarrow> json \<Rightarrow> exn + json" where
  "incr_key k d =
     raise_bind (getitem d k) (\<lambda>x.
     raise_bind (add_one x) (\<lambda>y.
     setitem d k y))"

text \<open>
  The file at \<open>STATS_FILE\<close> as \<open>json.load\<close> sees it: not there, there with a text that
  is not JSON (an empty or cut-off text too), or there with the text of a JSON value.
\<close>

datatype stats_file = Missing | Garbled | Holds json

text \<open>
  Everything outside the program that a request meets, one outcome per call the handler
  makes: whether opening the stats file for reading or for writing fails, whether
  \<open>json.dump\<close> (or the close that flushes it) fails after the file was opened and
  truncated, the engine's voice list, the index \<open>random.choice\<close> draws, the name
  \<open>NamedTemporaryFile\<close> creates, what the engine renders, whether reading or removing
  the transient file fails, and the exception \<open>Response\<close> raises for a header value with
  a line break. A failure carries the message that \<open>str(e)\<close> gives.
\<close>

datatype failure = Failure str

record env =
  stats_read_fails :: bool
  stats_open_fails :: bool
  stats_dump_fails :: bool
  list_voices :: "failure + raw_voice list"
  pick :: nat
  mktemp :: "failure + str"
  render :: "str \<Rightarrow> str \<Rightarrow> str \<Rightarrow> failure + bytes"
  read_fails :: "failure option"
  remove_fails :: "failure option"
  header_failure :: failure

text \<open>
  The state a request can change: the stats file, the files of the scratch directory
  (path to content), and a ghost counter of how often the stats file was opened for
  writing.
\<close>

record world =
  stats :: stats_file
  stats_opens :: nat
  files :: "str \<rightharpoonup> bytes"

definition zero_stats :: json where
  "zero_stats = JObj [(py_str ''total'', JInt 0), (py_str ''api'', JInt 0), (py_str ''ui'', JInt 0)]"

definition load_stats :: "env \<Rightarrow> stats_file \<Rightarrow> json" where
  "load_stats e f =
     (case f of
        Missing \<Rightarrow> zero_stats
      | Garbled \<Rightarrow> zero_stats
      | Holds j \<Rightarrow> (if stats_read_fails e then zero_stats else j))"

text \<open>The statements of \<open>save_stats\<close> before the file is opened for writing.\<close>

definition bump_stats :: "str \<Rightarrow> json \<Rightarrow> exn + json" where
  "bump_stats mode s =
     raise_bind (incr_key (py_str ''total'') s) (\<lambda>s1.
     if mode = py_str ''API'' then incr_key (py_str ''api'') s1
     else incr_key (py_str ''ui'') s1)"

text \<open>
  \<open>open(STATS_FILE, 'w')\<close> truncates the file when it succeeds, so a \<open>json.dump\<close> that
  fails afterwards leaves an empty or cut-off text behind. Every exception ends in
  \<open>except: pass\<close>.
\<close>

definition save_stats :: "env \<Rightarrow> str \<Rightarrow> world \<Rightarrow> world" where
  "save_stats e mode w =
     (case bump_stats mode (load_stats e (stats w)) of
        Inl x \<Rightarrow> w
      | Inr s \<Rightarrow>
          (if stats_open_fails e then w\<lparr>stats_opens := stats_opens w + 1\<rparr>
           else if stats_dump_fails e then w\<lparr>stats := Garbled, stats_opens := stats_opens w + 1\<rparr>
           else w\<lparr>stats := Holds s, stats_opens := stats_opens w + 1\<rparr>))"

section \<open>Voice resolver\<close>

definition default_voice :: str where
  "default_voice = py_str ''en-US-AriaNeural''"

text \<open>
  The \<open>for\<close> loop of the explicit-id branch: \<open>sel\<close> is \<open>selected_voice\<close>, assigned at
  the first entry whose lowercased id contains \<open>clean\<close>, where the loop breaks.
\<close>

fun smart_match :: "(str \<Rightarrow> str) \<Rightarrow> str \<Rightarrow> raw_voice list \<Rightarrow> str \<Rightarrow> str" where
  "smart_match lower clean [] sel = sel"
| "smart_match lower clean (v # vs) sel =
     (if sublist clean (lower (ShortName v)) then ShortName v
      else smart_match lower clean vs sel)"

text \<open>The three list comprehensions of the filter branch, each under its \<open>if\<close>.\<close>

definition by_lang :: "(str \<Rightarrow> str) \<Rightarrow> str option \<Rightarrow> raw_voice list \<Rightarrow> raw_voice list" where
  "by_lang lower lang cs =
     (case lang of
        None \<Rightarrow> cs
      | Some l \<Rightarrow> (if l = [] then cs
                   else filter (\<lambda>v. prefix (lower l) (lower (Locale v))) cs))"

definition by_gender :: "(str \<Rightarrow> str) \<Rightarrow> str option \<Rightarrow> raw_voice list \<Rightarrow> raw_voice list" where
  "by_gender lower gender cs =
     (case gender of
        None \<Rightarrow> cs
      | Some g \<Rightarrow> (if g = [] then cs
                   else filter (\<lambda>v. lower (Gender v) = lower g) cs))"

definition by_country :: "(str \<Rightarrow> str) \<Rightarrow> str option \<Rightarrow> raw_voice list \<Rightarrow> raw_voice list" where
  "by_country lower country cs =
     (case country of
        None \<Rightarrow> cs
      | Some c \<Rightarrow> (if c = [] then cs
                   else filter (\<lambda>v. lower (last (py_split (py_str ''-'') (Locale v))) = lower c) cs))"

definition candidates ::
  "(str \<Rightarrow> str) \<Rightarrow> str option \<Rightarrow> str option \<Rightarrow> str option \<Rightarrow> raw_voice list \<Rightarrow> raw_voice list" where
  "candidates lower lang gender country all_voices =
     by_country lower country (by_gender lower gender (by_lang lower lang all_voices))"

text \<open>
  Step 4 of \<open>tts_api\<close>. \<open>random.choice\<close> returns the element at an index below the
  length; the index comes from the environment as \<open>k\<close>.
\<close>

definition select_voice ::
  "(str \<Rightarrow> str) \<Rightarrow> nat \<Rightarrow> str option \<Rightarrow> str option \<Rightarrow> str option \<Rightarrow> str option \<Rightarrow>
   raw_voice list \<Rightarrow> str" where
  "select_voice lower k voice_param lang gender country all_voices =
     (case (if truthy voice_param then voice_param else None) of
        Some vp \<Rightarrow>
          smart_match lower (py_strip (py_replace (py_str ''neural'') [] (lower vp)))
            all_voices default_voice
      | None \<Rightarrow>
          (if truthy lang \<or> truthy gender \<or> truthy country then
             (let cs = candidates lower lang gender country all_voices
              in if cs \<noteq> [] then ShortName (cs ! (k mod length cs)) else default_voice)
           else default_voice))"

section \<open>The /tts endpoint\<close>

datatype body = JsonBody "(str \<times> str) list" | RawBody bytes

record response =
  status :: nat
  mimetype :: str
  body :: body
  headers :: "(str \<times> str) list"

record request =
  args :: "str \<rightharpoonup> str"
  form :: "str \<rightharpoonup> str"
  referrer :: "str option"
  host :: str

text \<open>\<open>jsonify({"error": m}), code\<close>\<close>

definition json_error :: "nat \<Rightarrow> str \<Rightarrow> response" where
  "json_error code m =
     \<lparr>status = code, mimetype = py_str ''application/json'',
      body = JsonBody [(py_str ''error'', m)], headers = []\<rparr>"

definition audio_response :: "bytes \<Rightarrow> str \<Rightarrow> response" where
  "audio_response data selected_voice =
     \<lparr>status = 200, mimetype = py_str ''audio/mpeg'', body = RawBody data,
      headers =
        [(py_str ''Content-Disposition'',
          py_str ''attachment; filename=tts_'' @ selected_voice @ py_str ''.mp3''),
         (py_str ''X-Voice-Used'', selected_voice)]\<rparr>"

definition message :: "failure \<Rightarrow> str" where
  "message f = (case f of Failure m \<Rightarrow> m)"

text \<open>
  \<open>Response(..., headers=...)\<close> refuses a header value that contains a carriage return or
  a line feed; both header values contain the selected voice id.
\<close>

definition header_ok :: "str \<Rightarrow> bool" where
  "header_ok v \<longleftrightarrow> 10 \<notin> set v \<and> 13 \<notin> set v"

text \<open>
  Step 5 of \<open>tts_api\<close>: the \<open>try\<close> block and its handler. The transient file exists from
  the moment \<open>NamedTemporaryFile(delete=False)\<close> returns; \<open>os.remove\<close> is the last
  statement before the response is built, still inside the \<open>try\<close>, and the handler only
  builds the error response.
\<close>

definition generate_audio :: "env \<Rightarrow> str \<Rightarrow> str \<Rightarrow> str \<Rightarrow> world \<Rightarrow> response \<times> world" where
  "generate_audio e text selected_voice rate w =
     (case mktemp e of
        Inl x \<Rightarrow> (json_error 500 (message x), w)
      | Inr t_name \<Rightarrow>
          (let w1 = w\<lparr>files := (files w)(t_name \<mapsto> [])\<rparr> in
           case render e text selected_voice rate of
             Inl x \<Rightarrow> (json_error 500 (message x), w1)
           | Inr audio \<Rightarrow>
               (let w2 = w1\<lparr>files := (files w1)(t_name \<mapsto> audio)\<rparr> in
                case read_fails e of
                  Some x \<Rightarrow> (json_error 500 (message x), w2)
                | None \<Rightarrow>
                    (case remove_fails e of
                       Some x \<Rightarrow> (json_error 500 (message x), w2)
                     | None \<Rightarrow>
                         (let w3 = w2\<lparr>files := (files w2)(t_name := None)\<rparr> in
                          if header_ok selected_voice
                          then (audio_response audio selected_voice, w3)
                          else (json_error 500 (message (header_failure e)), w3))))))"

text \<open>Step 2: the usage mode.\<close>

definition usage_mode :: "request \<Rightarrow> str" where
  "usage_mode r =
     (if truthy (referrer r) \<and> sublist (host r) (the (referrer r)) then py_str ''UI''
      else py_str ''API'')"

definition tts_api :: "(str \<Rightarrow> str) \<Rightarrow> env \<Rightarrow> request \<Rightarrow> world \<Rightarrow> response \<times> world" where
  "tts_api lower e r w =
     (let text = py_or (args r (py_str ''text'')) (form r (py_str ''text''));
          voice_param = py_or (args r (py_str ''voice'')) (form r (py_str ''voice''));
          lang = args r (py_str ''lang'');
          gender = args r (py_str ''gender'');
          country = args r (py_str ''country'');
          rate = (if truthy (args r (py_str ''rate'')) then the (args r (py_str ''rate''))
                  else py_str ''+0%'')
      in case (if truthy text then text else None) of
           None \<Rightarrow> (json_error 400 (py_str ''Missing 'text' parameter''), w)
         | Some t \<Rightarrow>
             (let w1 = save_stats e (usage_mode r) w in
              case list_voices e of
                Inl x \<Rightarrow> (json_error 500 (py_str ''TTS Engine unavailable''), w1)
              | Inr all_voices \<Rightarrow>
                  generate_audio e t
                    (select_voice lower (pick e) voice_param lang gender country all_voices)
                    rate w1))"

section \<open>Observations and example inputs\<close>

text \<open>The integer stored under a key of the loaded stats, if there is one.\<close>

definition counter :: "json \<Rightarrow> str \<Rightarrow> int option" where
  "counter d k = (case getitem d k of Inr (JInt n) \<Rightarrow> Some n | _ \<Rightarrow> None)"

text \<open>A small catalog, an engine that answers, and one whose rendering fails.\<close>

definition aria :: raw_voice where
  "aria = \<lparr>ShortName = py_str ''en-US-AriaNeural'', Gender = py_str ''Female'',
           Locale = py_str ''en-US'', FriendlyName = None\<rparr>"

definition guy :: raw_voice where
  "guy = \<lparr>ShortName = py_str ''en-US-GuyNeural'', Gender = py_str ''Male'',
          Locale = py_str ''en-US'', FriendlyName = None\<rparr>"

definition denise :: raw_voice where
  "denise = \<lparr>ShortName = py_str ''fr-FR-DeniseNeural'', Gender = py_str ''Female'',
             Locale = py_str ''fr-FR'', FriendlyName = None\<rparr>"

definition xiaobei :: raw_voice where
  "xiaobei = \<lparr>ShortName = py_str ''zh-CN-liaoning-XiaobeiNeural'', Gender = py_str ''Female'',
              Locale = py_str ''zh-CN-liaoning'', FriendlyName = None\<rparr>"

definition engine_ok :: env where
  "engine_ok =
     \<lparr>stats_read_fails = False, stats_open_fails = False, stats_dump_fails = False,
      list_voices = Inr [aria, guy, denise], pick = 0,
      mktemp = Inr (py_str ''/tmp/tmpk3x9.mp3''),
      render = (\<lambda>t v r. Inr [73, 68, 51]), read_fails = None, remove_fails = None,
      header_failure = Failure (py_str ''Header values must not contain newline characters.'')\<rparr>"

definition engine_render_fails :: env where
  "engine_render_fails =
     engine_ok\<lparr>render := (\<lambda>t v r. Inl (Failure (py_str ''No audio was received'')))\<rparr>"

definition fresh_world :: world where
  "fresh_world = \<lparr>stats = Missing, stats_opens = 0, files = Map.empty\<rparr>"

text \<open>The same two parameters, once in the query string and once in the form body.\<close>

definition req_query :: request where
  "req_query =
     \<lparr>args = [py_str ''text'' \<mapsto> py_str ''Hello'', py_str ''lang'' \<mapsto> py_str ''fr''],
      form = Map.empty, referrer = None, host = py_str ''localhost:8080''\<rparr>"

definition req_form :: request where
  "req_form =
     \<lparr>args = Map.empty,
      form = [py_str ''text'' \<mapsto> py_str ''Hello'', py_str ''lang'' \<mapsto> py_str ''fr''],
      referrer = None, host = py_str ''localhost:8080''\<rparr>"

definition req_form_voice :: request where
  "req_form_voice =
     \<lparr>args = Map.empty,
      form = [py_str ''text'' \<mapsto> py_str ''Hello'', py_str ''voice'' \<mapsto> py_str ''Denise''],
      referrer = None, host = py_str ''localhost:8080''\<rparr>"

section \<open>Properties of the string functions\<close>

lemma dash: "py_str ''-'' = [45]"
  by (simp add: py_str_def)

lemma Neural: "py_str ''Neural'' = [78, 101, 117, 114, 97, 108]"
  by (simp add: py_str_def)

lemma sublist_single: "sublist [c] s \<longleftrightarrow> c \<in> set s"
  by (induction s) (auto simp: sublist_Cons_right)

lemma split1_Nil: "py_split [c] [] = [[]]"
  by (subst py_split.simps) simp

lemma split1_Cons:
  "py_split [c] (x # xs) =
     (if x = c then [] # py_split [c] xs
      else (case py_split [c] xs of [] \<Rightarrow> [[x]] | p # ps \<Rightarrow> (x # p) # ps))"
  by (subst py_split.simps) (simp split: list.splits)

text \<open>A string has one more segment than it has separators.\<close>

lemma split1_length: "length (py_split [c] s) = Suc (count_list s c)"
  by (induction s) (auto simp: split1_Nil split1_Cons split: list.splits)

lemma split1_none: "c \<notin> set s \<Longrightarrow> py_split [c] s = [s]"
  by (induction s) (auto simp: split1_Nil split1_Cons)

lemma split1_head: "c \<notin> set a \<Longrightarrow> py_split [c] (a @ c # rest) = a # py_split [c] rest"
  by (induction a) (auto simp: split1_Cons)

text \<open>The last segment is what follows the last separator.\<close>

lemma split1_last: "c \<notin> set code \<Longrightarrow> last (py_split [c] (pre @ c # code)) = code"
proof (induction pre)
  case Nil
  then show ?case by (simp add: split1_Cons split1_none)
next
  case (Cons x pre)
  let ?rest = "py_split [c] (pre @ c # code)"
  have "length ?rest \<ge> 2" by (simp add: split1_length)
  then obtain p q qs where rest: "?rest = p # q # qs"
    by (cases ?rest; cases "tl ?rest") auto
  from Cons rest show ?case
    by (simp add: split1_Cons)
qed

lemma replace_Nil: "old \<noteq> [] \<Longrightarrow> py_replace old new [] = []"
  by (subst py_replace.simps) simp

lemma replace_Cons:
  "old \<noteq> [] \<Longrightarrow> py_replace old new (x # xs) =
     (if prefix old (x # xs) then new @ py_replace old new (drop (length old) (x # xs))
      else x # py_replace old new xs)"
  by (subst py_replace.simps) simp

text \<open>
  No proper end of \<open>Neural\<close> is a beginning of it, so an occurrence that starts inside
  \<open>ys\<close> lies inside \<open>ys\<close>.
\<close>

lemma neural_border:
  "prefix [78, 101, 117, 114, 97, 108] (ys @ [78, 101, 117, 114, 97, 108 :: nat]) \<Longrightarrow> ys \<noteq> [] \<Longrightarrow>
   prefix [78, 101, 117, 114, 97, 108] ys"
  by (auto simp: prefix_append prefix_Cons Cons_eq_append_conv append_eq_Cons_conv)

lemma replace_trailing:
  "\<not> sublist (py_str ''Neural'') nm \<Longrightarrow>
   py_replace (py_str ''Neural'') [] (nm @ py_str ''Neural'') = nm"
proof (induction nm)
  case Nil
  show ?case by (simp add: Neural replace_Cons replace_Nil)
next
  case (Cons x xs)
  have ne: "py_str ''Neural'' \<noteq> []" by (simp add: py_str_def)
  from Cons.prems have np: "\<not> prefix (py_str ''Neural'') (x # xs)"
    and ns: "\<not> sublist (py_str ''Neural'') xs"
    by (auto simp: sublist_Cons_right)
  from np have "\<not> prefix (py_str ''Neural'') (x # xs @ py_str ''Neural'')"
    unfolding Neural using neural_border[of "x # xs"] by auto
  then have "py_replace (py_str ''Neural'') [] (x # xs @ py_str ''Neural'') =
      x # py_replace (py_str ''Neural'') [] (xs @ py_str ''Neural'')"
    by (simp add: replace_Cons[OF ne])
  with Cons.IH[OF ns] show ?case by simp
qed

section \<open>Flag glyph\<close>

lemma flag_region:
  assumes "45 \<notin> set code"
  shows "flag_try (pre @ 45 # code) =
     raise_bind (py_index code 0) (\<lambda>c0.
     raise_bind (chr (c0 + 127397)) (\<lambda>a.
     raise_bind (py_index code 1) (\<lambda>c1.
     raise_bind (chr (c1 + 127397)) (\<lambda>b.
     Inr [a, b]))))"
  using assms
  by (simp add: flag_try_def dash sublist_single split1_last)

lemma flag_short:
  "45 \<notin> set code \<Longrightarrow> length code < 2 \<Longrightarrow> \<exists>x. flag_try (pre @ 45 # code) = Inl x"
  by (cases code) (auto simp: flag_region raise_bind_def py_index_def chr_def)

lemma flag_upper:
  "65 \<le> a \<Longrightarrow> a \<le> 90 \<Longrightarrow> 65 \<le> b \<Longrightarrow> b \<le> 90 \<Longrightarrow>
   flag_try (pre @ 45 # [a, b]) = Inr [127462 + (a - 65), 127462 + (b - 65)]"
  by (subst flag_region) (auto simp: raise_bind_def py_index_def chr_def)

text \<open>
  C4 (as the code has it). \<open>get_flag_emoji\<close> returns a string for every locale. For a
  locale that ends in \<open>-YY\<close> with two uppercase letters it is the two regional-indicator
  code points \<open>0x1F1E6 + (Y - 'A')\<close>; for a locale without \<open>-\<close> it is the globe; and
  whenever the derivation raises, as it does when fewer than two characters follow the
  last \<open>-\<close>, it is the white flag \<open>U+1F3F3 U+FE0F\<close> of the handler, not the globe.
\<close>

theorem get_flag_emoji_cases:
  "(65 \<le> a \<and> a \<le> 90 \<and> 65 \<le> b \<and> b \<le> 90 \<longrightarrow>
      get_flag_emoji (pre @ py_str ''-'' @ [a, b]) = [127462 + (a - 65), 127462 + (b - 65)]) \<and>
   (\<not> sublist (py_str ''-'') plain \<longrightarrow> get_flag_emoji plain = globe) \<and>
   (flag_try bad = Inl x \<longrightarrow> get_flag_emoji bad = white_flag) \<and>
   (45 \<notin> set code \<and> length code < 2 \<longrightarrow>
      get_flag_emoji (pre' @ py_str ''-'' @ code) = white_flag)"
proof (intro conjI impI)
  assume "65 \<le> a \<and> a \<le> 90 \<and> 65 \<le> b \<and> b \<le> 90"
  then show "get_flag_emoji (pre @ py_str ''-'' @ [a, b]) = [127462 + (a - 65), 127462 + (b - 65)]"
    by (simp add: get_flag_emoji_def dash flag_upper)
next
  assume "\<not> sublist (py_str ''-'') plain"
  then show "get_flag_emoji plain = globe"
    by (simp add: get_flag_emoji_def flag_try_def)
next
  assume "flag_try bad = Inl x"
  then show "get_flag_emoji bad = white_flag"
    by (simp add: get_flag_emoji_def)
next
  assume "45 \<notin> set code \<and> length code < 2"
  then obtain y where "flag_try (pre' @ 45 # code) = Inl y"
    using flag_short by blast
  then show "get_flag_emoji (pre' @ py_str ''-'' @ code) = white_flag"
    by (simp add: get_flag_emoji_def dash)
qed

theorem get_flag_emoji_cases_witness:
  "get_flag_emoji (py_str ''en-US'') = [127482, 127480] \<and>
   get_flag_emoji (py_str ''en'') = globe \<and>
   get_flag_emoji (py_str ''en-'') = white_flag \<and>
   get_flag_emoji (py_str ''en-U'') = white_flag"
  using get_flag_emoji_cases [where a = 85 and b = 83 and pre = "py_str ''en''"
      and plain = "py_str ''en''" and bad = "py_str ''en-''" and x = IndexError
      and code = "py_str ''U''" and pre' = "py_str ''en''"]
  by (simp add: py_str_def sublist_code flag_try_def split1_Cons split1_Nil raise_bind_def
      py_index_def)

text \<open>
  C4 as stated fails: for \<open>en-U\<close> the region code has one character, the derivation raises
  \<open>IndexError\<close>, and the result is the white flag, which is not the globe.
\<close>

theorem get_flag_emoji_not_globe:
  "flag_try (py_str ''en-U'') = Inl IndexError \<and> get_flag_emoji (py_str ''en-U'') \<noteq> globe"
  by (simp add: get_flag_emoji_def flag_try_def py_str_def sublist_code split1_Cons split1_Nil
      raise_bind_def py_index_def chr_def white_flag_def globe_def)

section \<open>Display name\<close>

lemma split1_nonempty: "py_split [c] s \<noteq> []"
  using split1_length [of c s] by auto

lemma split1_hd: "hd (py_split [c] s) = takeWhile (\<lambda>x. x \<noteq> c) s"
  by (induction s) (auto simp: split1_Nil split1_Cons split1_nonempty split: list.splits)

text \<open>
  What \<open>replace("Neural", "")\<close> does: a string without \<open>Neural\<close> is unchanged, and the
  leftmost occurrence is dropped and the rest treated the same way.
\<close>

lemma neural_border_mid:
  "prefix [78, 101, 117, 114, 97, 108] (ys @ [78, 101, 117, 114, 97, 108 :: nat] @ zs) \<Longrightarrow>
   ys \<noteq> [] \<Longrightarrow> prefix [78, 101, 117, 114, 97, 108] ys"
  by (auto simp: prefix_append prefix_Cons Cons_eq_append_conv append_eq_Cons_conv)

lemma replace_none:
  "\<not> sublist (py_str ''Neural'') x \<Longrightarrow> py_replace (py_str ''Neural'') [] x = x"
proof (induction x)
  case Nil
  show ?case by (simp add: Neural replace_Nil)
next
  case (Cons c cs)
  have ne: "py_str ''Neural'' \<noteq> []" by (simp add: py_str_def)
  from Cons.prems have np: "\<not> prefix (py_str ''Neural'') (c # cs)"
    and ns: "\<not> sublist (py_str ''Neural'') cs"
    by (auto simp: sublist_Cons_right)
  from np have "py_replace (py_str ''Neural'') [] (c # cs) = c # py_replace (py_str ''Neural'') [] cs"
    by (simp add: replace_Cons [OF ne])
  with Cons.IH [OF ns] show ?case by simp
qed

lemma replace_first:
  "\<not> sublist (py_str ''Neural'') x \<Longrightarrow>
   py_replace (py_str ''Neural'') [] (x @ py_str ''Neural'' @ y) =
     x @ py_replace (py_str ''Neural'') [] y"
proof (induction x)
  case Nil
  show ?case by (simp add: Neural replace_Cons)
next
  case (Cons c cs)
  have ne: "py_str ''Neural'' \<noteq> []" by (simp add: py_str_def)
  from Cons.prems have np: "\<not> prefix (py_str ''Neural'') (c # cs)"
    and ns: "\<not> sublist (py_str ''Neural'') cs"
    by (auto simp: sublist_Cons_right)
  from np have "\<not> prefix (py_str ''Neural'') (c # cs @ py_str ''Neural'' @ y)"
    unfolding Neural using neural_border_mid [of "c # cs" y] by auto
  then have "py_replace (py_str ''Neural'') [] (c # cs @ py_str ''Neural'' @ y) =
      c # py_replace (py_str ''Neural'') [] (cs @ py_str ''Neural'' @ y)"
    by (simp add: replace_Cons [OF ne])
  with Cons.IH [OF ns] show ?case by simp
qed

lemma third_segment:
  assumes "ShortName u = a @ py_str ''-'' @ b @ py_str ''-'' @ rest"
    and "45 \<notin> set a" "45 \<notin> set b"
  shows "v_name (parse_voice u) =
     py_replace (py_str ''Neural'') [] (takeWhile (\<lambda>c. c \<noteq> 45) rest)"
proof -
  have "py_split [45] (ShortName u) = a # b # py_split [45] rest"
    using assms by (simp add: dash split1_head)
  moreover have "py_split [45] rest \<noteq> []"
    using split1_length [of 45 rest] by auto
  then have "py_split [45] rest = hd (py_split [45] rest) # tl (py_split [45] rest)"
    by simp
  ultimately have "py_split [45] (ShortName u) =
      a # b # takeWhile (\<lambda>c. c \<noteq> 45) rest # tl (py_split [45] rest)"
    by (simp add: split1_hd)
  then show ?thesis
    by (simp add: parse_voice_def dash Let_def)
qed

text \<open>
  C8 (as the code has it). An id with fewer than two \<open>-\<close> (at most two segments) is the
  name verbatim. Otherwise the name is the third segment, the text between the second
  \<open>-\<close> and the next \<open>-\<close> or the end, after \<open>replace("Neural", "")\<close>, which removes every
  occurrence from the left and not only a trailing one: a segment without \<open>Neural\<close> is
  unchanged, and the leftmost occurrence is dropped and the rest treated the same way. So
  for an id of exactly three segments \<open>vendor-locale-NameNeural\<close>, with no \<open>-\<close> in
  \<open>vendor\<close>, \<open>locale\<close> and \<open>Name\<close> and no \<open>Neural\<close> in \<open>Name\<close>, the name is \<open>Name\<close>.
\<close>

theorem parse_voice_name:
  "(count_list (ShortName v) 45 < 2 \<longrightarrow> v_name (parse_voice v) = ShortName v) \<and>
   (ShortName u = a @ py_str ''-'' @ b @ py_str ''-'' @ rest \<and> 45 \<notin> set a \<and> 45 \<notin> set b \<longrightarrow>
      v_name (parse_voice u) =
        py_replace (py_str ''Neural'') [] (takeWhile (\<lambda>c. c \<noteq> 45) rest)) \<and>
   (\<not> sublist (py_str ''Neural'') x \<longrightarrow>
      py_replace (py_str ''Neural'') [] x = x \<and>
      py_replace (py_str ''Neural'') [] (x @ py_str ''Neural'' @ y) =
        x @ py_replace (py_str ''Neural'') [] y) \<and>
   (ShortName t = vendor @ py_str ''-'' @ loc @ py_str ''-'' @ nm @ py_str ''Neural'' \<and>
    45 \<notin> set vendor \<and> 45 \<notin> set loc \<and> 45 \<notin> set nm \<and> \<not> sublist (py_str ''Neural'') nm \<longrightarrow>
      v_name (parse_voice t) = nm)"
proof (intro conjI impI)
  assume "count_list (ShortName v) 45 < 2"
  then show "v_name (parse_voice v) = ShortName v"
    by (simp add: parse_voice_def Let_def dash split1_length)
next
  assume "ShortName u = a @ py_str ''-'' @ b @ py_str ''-'' @ rest \<and> 45 \<notin> set a \<and> 45 \<notin> set b"
  then show "v_name (parse_voice u) =
      py_replace (py_str ''Neural'') [] (takeWhile (\<lambda>c. c \<noteq> 45) rest)"
    using third_segment by blast
next
  assume "\<not> sublist (py_str ''Neural'') x"
  then show "py_replace (py_str ''Neural'') [] x = x" by (rule replace_none)
next
  assume "\<not> sublist (py_str ''Neural'') x"
  then show "py_replace (py_str ''Neural'') [] (x @ py_str ''Neural'' @ y) =
      x @ py_replace (py_str ''Neural'') [] y"
    by (rule replace_first)
next
  assume h: "ShortName t = vendor @ py_str ''-'' @ loc @ py_str ''-'' @ nm @ py_str ''Neural'' \<and>
    45 \<notin> set vendor \<and> 45 \<notin> set loc \<and> 45 \<notin> set nm \<and> \<not> sublist (py_str ''Neural'') nm"
  then have "45 \<notin> set (nm @ py_str ''Neural'')" by (simp add: Neural)
  then have tw: "takeWhile (\<lambda>c. c \<noteq> 45) (nm @ py_str ''Neural'') = nm @ py_str ''Neural''"
    by (simp only: takeWhile_eq_all_conv) auto
  from h have "v_name (parse_voice t) =
      py_replace (py_str ''Neural'') [] (takeWhile (\<lambda>c. c \<noteq> 45) (nm @ py_str ''Neural''))"
    using third_segment [of t vendor loc "nm @ py_str ''Neural''"] by blast
  then have "v_name (parse_voice t) = py_replace (py_str ''Neural'') [] (nm @ py_str ''Neural'')"
    by (simp only: tw)
  also from h have "\<dots> = nm" by (simp add: replace_trailing)
  finally show "v_name (parse_voice t) = nm" .
qed

theorem parse_voice_name_witness:
  "v_name (parse_voice (aria\<lparr>ShortName := py_str ''Aria''\<rparr>)) = py_str ''Aria'' \<and>
   v_name (parse_voice xiaobei) = py_str ''liaoning'' \<and>
   py_replace (py_str ''Neural'') [] (py_str ''Net'') = py_str ''Net'' \<and>
   py_replace (py_str ''Neural'') [] (py_str ''Net'' @ py_str ''Neural'' @ py_str ''Neural'') =
     py_str ''Net'' @ py_replace (py_str ''Neural'') [] (py_str ''Neural'') \<and>
   v_name (parse_voice aria) = py_str ''Aria''"
proof -
  note th = parse_voice_name [where v = "aria\<lparr>ShortName := py_str ''Aria''\<rparr>" and u = xiaobei
      and a = "py_str ''zh''" and b = "py_str ''CN''" and rest = "py_str ''liaoning-XiaobeiNeural''"
      and x = "py_str ''Net''" and y = "py_str ''Neural''" and t = aria
      and vendor = "py_str ''en''" and loc = "py_str ''US''" and nm = "py_str ''Aria''"]
  have h1: "count_list (ShortName (aria\<lparr>ShortName := py_str ''Aria''\<rparr>)) 45 < 2"
    by (simp add: py_str_def)
  have h2: "ShortName xiaobei = py_str ''zh'' @ py_str ''-'' @ py_str ''CN'' @ py_str ''-'' @
      py_str ''liaoning-XiaobeiNeural'' \<and> 45 \<notin> set (py_str ''zh'') \<and> 45 \<notin> set (py_str ''CN'')"
    by (simp add: xiaobei_def py_str_def)
  have h3: "\<not> sublist (py_str ''Neural'') (py_str ''Net'')"
    by (simp add: py_str_def sublist_code)
  have h4: "ShortName aria = py_str ''en'' @ py_str ''-'' @ py_str ''US'' @ py_str ''-'' @
      py_str ''Aria'' @ py_str ''Neural'' \<and> 45 \<notin> set (py_str ''en'') \<and> 45 \<notin> set (py_str ''US'') \<and>
      45 \<notin> set (py_str ''Aria'') \<and> \<not> sublist (py_str ''Neural'') (py_str ''Aria'')"
    by (simp add: aria_def py_str_def sublist_code)
  have c1: "v_name (parse_voice (aria\<lparr>ShortName := py_str ''Aria''\<rparr>)) = py_str ''Aria''"
    using th [THEN conjunct1, THEN mp, OF h1] by simp
  have "v_name (parse_voice xiaobei) =
      py_replace (py_str ''Neural'') [] (takeWhile (\<lambda>c. c \<noteq> 45) (py_str ''liaoning-XiaobeiNeural''))"
    by (rule th [THEN conjunct2, THEN conjunct1, THEN mp, OF h2])
  then have c2: "v_name (parse_voice xiaobei) = py_str ''liaoning''"
    by (simp add: py_str_def replace_Cons replace_Nil)
  note c3 = th [THEN conjunct2, THEN conjunct2, THEN conjunct1, THEN mp, OF h3]
  note c4 = th [THEN conjunct2, THEN conjunct2, THEN conjunct2, THEN mp, OF h4]
  from c1 c2 c3 c4 show ?thesis by simp
qed

text \<open>
  C8 as stated fails: in \<open>en-US-NeuralNetNeural\<close> the third segment has \<open>Neural\<close> twice;
  the code returns \<open>Net\<close>, and removing only the trailing one gives \<open>NeuralNet\<close>.
\<close>

theorem parse_voice_name_not_trailing:
  "v_name (parse_voice \<lparr>ShortName = py_str ''en-US-NeuralNetNeural'', Gender = py_str ''Female'',
      Locale = py_str ''en-US'', FriendlyName = None\<rparr>) = py_str ''Net'' \<and>
   spec_display_name (py_str ''en-US-NeuralNetNeural'') = py_str ''NeuralNet'' \<and>
   py_str ''Net'' \<noteq> py_str ''NeuralNet''"
  by (simp add: parse_voice_def spec_display_name_def py_str_def split1_Cons split1_Nil
      replace_Cons replace_Nil Let_def suffix_to_prefix)

section \<open>Usage counters\<close>

lemma counter_obj:
  "counter d k = Some n \<longleftrightarrow> (\<exists>kvs. d = JObj kvs \<and> map_of kvs k = Some (JInt n))"
  by (auto simp: counter_def getitem_def split: json.splits option.splits)

lemma incr_key_obj:
  "map_of kvs k = Some (JInt n) \<Longrightarrow>
   incr_key k (JObj kvs) = Inr (JObj (AList.update k (JInt (n + 1)) kvs))"
  by (simp add: incr_key_def getitem_def add_one_def setitem_def raise_bind_def)

lemma counter_update:
  "counter (JObj (AList.update k (JInt n) kvs)) k' =
     (if k' = k then Some n else counter (JObj kvs) k')"
  by (simp add: counter_def getitem_def update_conv')

lemma keys_distinct:
  "py_str ''total'' \<noteq> py_str ''api''" "py_str ''total'' \<noteq> py_str ''ui''"
  "py_str ''api'' \<noteq> py_str ''ui''"
  by (simp_all add: py_str_def)

lemma zero_counters:
  "counter zero_stats (py_str ''total'') = Some 0" "counter zero_stats (py_str ''api'') = Some 0"
  "counter zero_stats (py_str ''ui'') = Some 0"
  by (simp_all add: counter_def getitem_def zero_stats_def py_str_def)

text \<open>The three statements before the write add one to \<open>total\<close> and to one other field.\<close>

lemma bump_counters:
  assumes "counter s (py_str ''total'') = Some t" "counter s (py_str ''api'') = Some a"
    "counter s (py_str ''ui'') = Some u"
  shows "\<exists>s'. bump_stats mode s = Inr s' \<and>
     counter s' (py_str ''total'') = Some (t + 1) \<and>
     counter s' (py_str ''api'') = Some (if mode = py_str ''API'' then a + 1 else a) \<and>
     counter s' (py_str ''ui'') = Some (if mode = py_str ''API'' then u else u + 1)"
proof -
  from assms obtain kvs where s: "s = JObj kvs" and
    m: "map_of kvs (py_str ''total'') = Some (JInt t)"
       "map_of kvs (py_str ''api'') = Some (JInt a)"
       "map_of kvs (py_str ''ui'') = Some (JInt u)"
    by (auto simp: counter_obj)
  let ?k1 = "AList.update (py_str ''total'') (JInt (t + 1)) kvs"
  have m1: "map_of ?k1 (py_str ''api'') = Some (JInt a)"
    "map_of ?k1 (py_str ''ui'') = Some (JInt u)"
    using m keys_distinct by (simp_all add: update_conv')
  show ?thesis
    using m keys_distinct
    by (simp add: s bump_stats_def raise_bind_def incr_key_obj[OF m(1)] incr_key_obj[OF m1(1)]
        incr_key_obj[OF m1(2)] counter_update counter_def getitem_def update_conv')
qed

lemma save_stats_written:
  "bump_stats mode (load_stats e (stats w)) = Inr s' \<Longrightarrow> \<not> stats_open_fails e \<Longrightarrow>
   \<not> stats_dump_fails e \<Longrightarrow> stats (save_stats e mode w) = Holds s'"
  by (simp add: save_stats_def)

lemma two_increments:
  assumes "stats w = Missing \<or> stats w = Garbled \<or> stats w = Holds zero_stats"
    and "\<not> stats_open_fails e1" "\<not> stats_dump_fails e1"
    and "\<not> stats_read_fails e2" "\<not> stats_open_fails e2" "\<not> stats_dump_fails e2"
  shows "stats (save_stats e2 (py_str ''API'') (save_stats e1 (py_str ''UI'') w)) =
     Holds (JObj [(py_str ''total'', JInt 2), (py_str ''api'', JInt 1), (py_str ''ui'', JInt 1)])"
proof -
  have l: "load_stats e1 (stats w) = zero_stats"
    using assms(1) by (auto simp: load_stats_def)
  have b1: "bump_stats (py_str ''UI'') zero_stats =
      Inr (JObj [(py_str ''total'', JInt 1), (py_str ''api'', JInt 0), (py_str ''ui'', JInt 1)])"
    by (simp add: zero_stats_def bump_stats_def incr_key_def getitem_def add_one_def setitem_def
        raise_bind_def py_str_def)
  have b2: "bump_stats (py_str ''API'')
        (JObj [(py_str ''total'', JInt 1), (py_str ''api'', JInt 0), (py_str ''ui'', JInt 1)]) =
      Inr (JObj [(py_str ''total'', JInt 2), (py_str ''api'', JInt 1), (py_str ''ui'', JInt 1)])"
    by (simp add: bump_stats_def incr_key_def getitem_def add_one_def setitem_def
        raise_bind_def py_str_def)
  have s1: "stats (save_stats e1 (py_str ''UI'') w) =
      Holds (JObj [(py_str ''total'', JInt 1), (py_str ''api'', JInt 0), (py_str ''ui'', JInt 1)])"
    using assms(2,3) by (simp add: save_stats_def l b1)
  show ?thesis
    using assms(4,5,6) by (simp add: save_stats_def[of e2] s1 load_stats_def b2)
qed

text \<open>
  C3. Let the state an increment starts from (the loaded file, or \<open>{0,0,0}\<close> when the file
  is missing, unreadable or not JSON) have integer counters with \<open>total = api + ui\<close>. An
  increment whose write succeeds stores a state with \<open>total\<close> one higher and exactly the
  field of the mode one higher, so \<open>total = api + ui\<close> holds again. One \<open>UI\<close> and then one
  \<open>API\<close> increment from \<open>{0,0,0}\<close> (or from no file) store \<open>{"total":2,"api":1,"ui":1}\<close>.
\<close>

theorem save_stats_invariant:
  "(counter (load_stats e (stats w)) (py_str ''total'') = Some t \<and>
    counter (load_stats e (stats w)) (py_str ''api'') = Some a \<and>
    counter (load_stats e (stats w)) (py_str ''ui'') = Some u \<and> t = a + u \<and>
    \<not> stats_open_fails e \<and> \<not> stats_dump_fails e \<longrightarrow>
      (\<exists>s'. stats (save_stats e mode w) = Holds s' \<and>
         counter s' (py_str ''total'') = Some (t + 1) \<and>
         counter s' (py_str ''api'') = Some (if mode = py_str ''API'' then a + 1 else a) \<and>
         counter s' (py_str ''ui'') = Some (if mode = py_str ''API'' then u else u + 1) \<and>
         t + 1 = (if mode = py_str ''API'' then a + 1 else a) +
                 (if mode = py_str ''API'' then u else u + 1))) \<and>
   (f = Missing \<or> f = Garbled \<longrightarrow>
      load_stats ez f = zero_stats \<and> counter zero_stats (py_str ''total'') = Some 0 \<and>
      counter zero_stats (py_str ''api'') = Some 0 \<and> counter zero_stats (py_str ''ui'') = Some 0) \<and>
   ((stats wa = Missing \<or> stats wa = Garbled \<or> stats wa = Holds zero_stats) \<and>
    \<not> stats_open_fails ea \<and> \<not> stats_dump_fails ea \<and>
    \<not> stats_read_fails eb \<and> \<not> stats_open_fails eb \<and> \<not> stats_dump_fails eb \<longrightarrow>
      stats (save_stats eb (py_str ''API'') (save_stats ea (py_str ''UI'') wa)) =
        Holds (JObj [(py_str ''total'', JInt 2), (py_str ''api'', JInt 1), (py_str ''ui'', JInt 1)]))"
proof (intro conjI impI)
  assume h: "counter (load_stats e (stats w)) (py_str ''total'') = Some t \<and>
    counter (load_stats e (stats w)) (py_str ''api'') = Some a \<and>
    counter (load_stats e (stats w)) (py_str ''ui'') = Some u \<and> t = a + u \<and>
    \<not> stats_open_fails e \<and> \<not> stats_dump_fails e"
  then obtain s' where s': "bump_stats mode (load_stats e (stats w)) = Inr s'"
    "counter s' (py_str ''total'') = Some (t + 1)"
    "counter s' (py_str ''api'') = Some (if mode = py_str ''API'' then a + 1 else a)"
    "counter s' (py_str ''ui'') = Some (if mode = py_str ''API'' then u else u + 1)"
    using bump_counters[of "load_stats e (stats w)" t a u mode] by blast
  from h s'(1) have "stats (save_stats e mode w) = Holds s'"
    by (simp add: save_stats_written)
  moreover from h have "t + 1 = (if mode = py_str ''API'' then a + 1 else a) +
                 (if mode = py_str ''API'' then u else u + 1)"
    by simp
  ultimately show "\<exists>s'. stats (save_stats e mode w) = Holds s' \<and>
         counter s' (py_str ''total'') = Some (t + 1) \<and>
         counter s' (py_str ''api'') = Some (if mode = py_str ''API'' then a + 1 else a) \<and>
         counter s' (py_str ''ui'') = Some (if mode = py_str ''API'' then u else u + 1) \<and>
         t + 1 = (if mode = py_str ''API'' then a + 1 else a) +
                 (if mode = py_str ''API'' then u else u + 1)"
    using s'(2,3,4) by blast
next
  assume "f = Missing \<or> f = Garbled"
  then show "load_stats ez f = zero_stats" by (auto simp: load_stats_def)
next
  show "counter zero_stats (py_str ''total'') = Some 0" by (rule zero_counters)
next
  show "counter zero_stats (py_str ''api'') = Some 0" by (rule zero_counters)
next
  show "counter zero_stats (py_str ''ui'') = Some 0" by (rule zero_counters)
next
  assume "(stats wa = Missing \<or> stats wa = Garbled \<or> stats wa = Holds zero_stats) \<and>
    \<not> stats_open_fails ea \<and> \<not> stats_dump_fails ea \<and>
    \<not> stats_read_fails eb \<and> \<not> stats_open_fails eb \<and> \<not> stats_dump_fails eb"
  then show "stats (save_stats eb (py_str ''API'') (save_stats ea (py_str ''UI'') wa)) =
        Holds (JObj [(py_str ''total'', JInt 2), (py_str ''api'', JInt 1), (py_str ''ui'', JInt 1)])"
    using two_increments[of wa ea eb] by blast
qed

theorem save_stats_invariant_witness:
  "(\<exists>s'. stats (save_stats engine_ok (py_str ''UI'')
            \<lparr>stats = Holds (JObj [(py_str ''total'', JInt 5), (py_str ''api'', JInt 2),
                                  (py_str ''ui'', JInt 3)]),
             stats_opens = 0, files = Map.empty\<rparr>) = Holds s' \<and>
         counter s' (py_str ''total'') = Some 6 \<and> counter s' (py_str ''api'') = Some 2 \<and>
         counter s' (py_str ''ui'') = Some 4) \<and>
   load_stats engine_ok Missing = zero_stats \<and>
   stats (save_stats engine_ok (py_str ''API'') (save_stats engine_ok (py_str ''UI'') fresh_world)) =
     Holds (JObj [(py_str ''total'', JInt 2), (py_str ''api'', JInt 1), (py_str ''ui'', JInt 1)])"
  using save_stats_invariant [where e = engine_ok and mode = "py_str ''UI''" and t = 5 and a = 2
      and u = 3 and f = Missing and ez = engine_ok and wa = fresh_world and ea = engine_ok
      and eb = engine_ok
      and w = "\<lparr>stats = Holds (JObj [(py_str ''total'', JInt 5), (py_str ''api'', JInt 2),
                                  (py_str ''ui'', JInt 3)]),
             stats_opens = 0, files = Map.empty\<rparr>"]
  by (simp add: engine_ok_def fresh_world_def load_stats_def counter_def getitem_def py_str_def)

text \<open>
  C5 (as the code has it). \<open>save_stats\<close> never raises. When the increment fails before
  the file is opened for writing (the loaded value is not a dictionary of numbers, or the
  open itself fails) the stored state is unchanged. When \<open>json.dump\<close> fails after the open,
  the file has been truncated and holds no record any more.
\<close>

theorem save_stats_failure:
  "(bump_stats mode (load_stats e (stats w)) = Inl x \<longrightarrow> save_stats e mode w = w) \<and>
   (stats_open_fails ea \<longrightarrow> stats (save_stats ea ma wa) = stats wa) \<and>
   (bump_stats mb (load_stats eb (stats wb)) = Inr s \<and> \<not> stats_open_fails eb \<and>
    stats_dump_fails eb \<longrightarrow> stats (save_stats eb mb wb) = Garbled)"
  by (auto simp: save_stats_def split: sum.splits)

theorem save_stats_failure_witness:
  "save_stats engine_ok (py_str ''API'') \<lparr>stats = Holds (JArr []), stats_opens = 0, files = Map.empty\<rparr> =
     \<lparr>stats = Holds (JArr []), stats_opens = 0, files = Map.empty\<rparr> \<and>
   stats (save_stats (engine_ok\<lparr>stats_open_fails := True\<rparr>) (py_str ''API'') fresh_world) = Missing \<and>
   stats (save_stats (engine_ok\<lparr>stats_dump_fails := True\<rparr>) (py_str ''API'') fresh_world) = Garbled"
  using save_stats_failure [where e = engine_ok and mode = "py_str ''API''" and x = TypeError
      and w = "\<lparr>stats = Holds (JArr []), stats_opens = 0, files = Map.empty\<rparr>"
      and ea = "engine_ok\<lparr>stats_open_fails := True\<rparr>" and ma = "py_str ''API''"
      and wa = fresh_world
      and eb = "engine_ok\<lparr>stats_dump_fails := True\<rparr>" and mb = "py_str ''API''"
      and wb = fresh_world
      and s = "JObj [(py_str ''total'', JInt 1), (py_str ''api'', JInt 1), (py_str ''ui'', JInt 0)]"]
  by (simp add: engine_ok_def fresh_world_def load_stats_def bump_stats_def incr_key_def
      getitem_def add_one_def setitem_def raise_bind_def zero_stats_def py_str_def)

text \<open>
  C5 as stated fails: with \<open>{"total":1,"api":1,"ui":0}\<close> stored and a \<open>json.dump\<close> that
  fails after \<open>open(STATS_FILE, 'w')\<close> succeeded, the file no longer holds the prior state.
\<close>

theorem save_stats_truncates:
  "stats (save_stats (engine_ok\<lparr>stats_dump_fails := True\<rparr>) (py_str ''API'')
      \<lparr>stats = Holds (JObj [(py_str ''total'', JInt 1), (py_str ''api'', JInt 1),
                            (py_str ''ui'', JInt 0)]),
       stats_opens = 0, files = Map.empty\<rparr>) = Garbled \<and>
   Garbled \<noteq> Holds (JObj [(py_str ''total'', JInt 1), (py_str ''api'', JInt 1),
                           (py_str ''ui'', JInt 0)])"
  by (simp add: save_stats_def engine_ok_def load_stats_def bump_stats_def incr_key_def
      getitem_def add_one_def setitem_def raise_bind_def py_str_def)

section \<open>Voice resolution\<close>

lemma smart_match_first:
  "(\<exists>i<length vs. sublist clean (lower (ShortName (vs ! i))) \<and>
       (\<forall>j<i. \<not> sublist clean (lower (ShortName (vs ! j)))) \<and>
       smart_match lower clean vs d = ShortName (vs ! i)) \<or>
   ((\<forall>v\<in>set vs. \<not> sublist clean (lower (ShortName v))) \<and> smart_match lower clean vs d = d)"
proof (induction vs)
  case Nil
  show ?case by simp
next
  case (Cons v vs)
  show ?case
  proof (cases "sublist clean (lower (ShortName v))")
    case True
    then have "0 < length (v # vs) \<and> sublist clean (lower (ShortName ((v # vs) ! 0))) \<and>
       (\<forall>j<0. \<not> sublist clean (lower (ShortName ((v # vs) ! j)))) \<and>
       smart_match lower clean (v # vs) d = ShortName ((v # vs) ! 0)"
      by simp
    then show ?thesis by blast
  next
    case False
    from Cons.IH show ?thesis
    proof
      assume "\<exists>i<length vs. sublist clean (lower (ShortName (vs ! i))) \<and>
       (\<forall>j<i. \<not> sublist clean (lower (ShortName (vs ! j)))) \<and>
       smart_match lower clean vs d = ShortName (vs ! i)"
      then obtain i where i: "i < length vs" "sublist clean (lower (ShortName (vs ! i)))"
        "\<forall>j<i. \<not> sublist clean (lower (ShortName (vs ! j)))"
        "smart_match lower clean vs d = ShortName (vs ! i)"
        by blast
      have "\<forall>j<Suc i. \<not> sublist clean (lower (ShortName ((v # vs) ! j)))"
        using False i(3) by (auto simp: less_Suc_eq_0_disj)
      with i False have "Suc i < length (v # vs) \<and>
         sublist clean (lower (ShortName ((v # vs) ! Suc i))) \<and>
         (\<forall>j<Suc i. \<not> sublist clean (lower (ShortName ((v # vs) ! j)))) \<and>
         smart_match lower clean (v # vs) d = ShortName ((v # vs) ! Suc i)"
        by simp
      then show ?thesis by blast
    next
      assume "(\<forall>v\<in>set vs. \<not> sublist clean (lower (ShortName v))) \<and>
        smart_match lower clean vs d = d"
      with False show ?thesis by simp
    qed
  qed
qed

lemma smart_match_member:
  "smart_match lower clean vs d = d \<or> (\<exists>v\<in>set vs. smart_match lower clean vs d = ShortName v)"
  by (induction vs) auto

lemma candidates_sound:
  "v \<in> set (candidates lower lang gender country vs) \<Longrightarrow>
     v \<in> set vs \<and>
     (truthy lang \<longrightarrow> prefix (lower (the lang)) (lower (Locale v))) \<and>
     (truthy gender \<longrightarrow> lower (Gender v) = lower (the gender)) \<and>
     (truthy country \<longrightarrow> lower (last (py_split (py_str ''-'') (Locale v))) = lower (the country))"
  by (auto simp: candidates_def by_lang_def by_gender_def by_country_def truthy_def
      split: option.splits if_splits)

lemma sel_explicit:
  "vp \<noteq> [] \<Longrightarrow> select_voice lower k (Some vp) lang gender country vs =
     smart_match lower (py_strip (py_replace (py_str ''neural'') [] (lower vp))) vs default_voice"
  by (simp add: select_voice_def truthy_def)

lemma sel_absent:
  "\<not> truthy vp \<Longrightarrow> select_voice lower k vp lang gender country vs =
     (if truthy lang \<or> truthy gender \<or> truthy country then
        (let cs = candidates lower lang gender country vs
         in if cs \<noteq> [] then ShortName (cs ! (k mod length cs)) else default_voice)
      else default_voice)"
  by (simp add: select_voice_def)

lemma sel_falsy:
  "\<not> truthy vp \<Longrightarrow> select_voice lower k vp lang gender country vs =
     select_voice lower k None lang gender country vs"
  by (simp add: select_voice_def truthy_def)

lemma sel_guy:
  "select_voice ascii_lower k (Some (py_str ''Guy Neural'')) lang gender country [aria, guy, denise] =
     py_str ''en-US-GuyNeural''"
  by (simp add: select_voice_def truthy_def aria_def guy_def denise_def ascii_lower_def py_str_def
      py_strip_def isspace_def replace_Cons replace_Nil sublist_code)

lemma sel_fr:
  "select_voice ascii_lower 0 None (Some (py_str ''fr'')) None None [aria, guy, denise] =
     py_str ''fr-FR-DeniseNeural''"
  by (simp add: select_voice_def truthy_def candidates_def by_lang_def by_gender_def by_country_def
      aria_def guy_def denise_def ascii_lower_def py_str_def)

lemma sel_none:
  "select_voice ascii_lower 0 None None None None [aria, guy, denise] = py_str ''en-US-AriaNeural''"
  by (simp add: select_voice_def truthy_def default_voice_def)

text \<open>
  C2. With a non-empty explicit voice parameter the selected id is the id of the first
  catalog entry, in fetched order, whose lowercased id contains the parameter after
  lowercasing, removal of \<open>neural\<close> and trimming; with no such entry it is the default id.
  The filters and the random index play no part.
\<close>

theorem explicit_voice_first_match:
  assumes "vp \<noteq> []"
  shows "(\<exists>i<length vs.
            sublist (py_strip (py_replace (py_str ''neural'') [] (lower vp)))
              (lower (ShortName (vs ! i))) \<and>
            (\<forall>j<i. \<not> sublist (py_strip (py_replace (py_str ''neural'') [] (lower vp)))
                        (lower (ShortName (vs ! j)))) \<and>
            select_voice lower k (Some vp) lang gender country vs = ShortName (vs ! i)) \<or>
         ((\<forall>v\<in>set vs. \<not> sublist (py_strip (py_replace (py_str ''neural'') [] (lower vp)))
                           (lower (ShortName v))) \<and>
          select_voice lower k (Some vp) lang gender country vs = default_voice)"
  using smart_match_first [of vs "py_strip (py_replace (py_str ''neural'') [] (lower vp))" lower
      default_voice]
  by (simp only: sel_explicit [OF assms])

theorem explicit_voice_first_match_witness:
  "py_str ''Guy Neural'' \<noteq> [] \<and>
   ((\<exists>i<length [aria, guy, denise].
       sublist (py_strip (py_replace (py_str ''neural'') [] (ascii_lower (py_str ''Guy Neural''))))
         (ascii_lower (ShortName ([aria, guy, denise] ! i))) \<and>
       (\<forall>j<i. \<not> sublist
            (py_strip (py_replace (py_str ''neural'') [] (ascii_lower (py_str ''Guy Neural''))))
            (ascii_lower (ShortName ([aria, guy, denise] ! j)))) \<and>
       select_voice ascii_lower 7 (Some (py_str ''Guy Neural'')) (Some (py_str ''fr'')) None None
         [aria, guy, denise] = ShortName ([aria, guy, denise] ! i)) \<or>
    ((\<forall>v\<in>set [aria, guy, denise].
        \<not> sublist (py_strip (py_replace (py_str ''neural'') [] (ascii_lower (py_str ''Guy Neural''))))
            (ascii_lower (ShortName v))) \<and>
     select_voice ascii_lower 7 (Some (py_str ''Guy Neural'')) (Some (py_str ''fr'')) None None
       [aria, guy, denise] = default_voice)) \<and>
   select_voice ascii_lower 7 (Some (py_str ''Guy Neural'')) (Some (py_str ''fr'')) None None
     [aria, guy, denise] = py_str ''en-US-GuyNeural''"
proof -
  have h: "py_str ''Guy Neural'' \<noteq> []" by (simp add: py_str_def)
  show ?thesis
    using h explicit_voice_first_match [OF h, of "[aria, guy, denise]" ascii_lower 7
        "Some (py_str ''fr'')" None None] sel_guy
    by blast
qed

text \<open>
  C9. The selected id is the default id or the id of a catalog entry. When the filter
  branch chooses (no explicit voice, a filter supplied, a candidate left), the entry it
  comes from passes every filter that was supplied: its lowercased locale starts with the
  lowercased \<open>lang\<close>, its gender equals \<open>gender\<close> up to case, and the last segment of its
  locale equals \<open>country\<close> up to case.
\<close>

theorem selected_voice_in_catalog:
  "(select_voice lower k vp lang gender country vs = default_voice \<or>
    (\<exists>v\<in>set vs. select_voice lower k vp lang gender country vs = ShortName v)) \<and>
   (\<not> truthy vp \<and> (truthy lang \<or> truthy gender \<or> truthy country) \<and>
    candidates lower lang gender country vs \<noteq> [] \<longrightarrow>
      (\<exists>v\<in>set vs. select_voice lower k vp lang gender country vs = ShortName v \<and>
         (truthy lang \<longrightarrow> prefix (lower (the lang)) (lower (Locale v))) \<and>
         (truthy gender \<longrightarrow> lower (Gender v) = lower (the gender)) \<and>
         (truthy country \<longrightarrow>
            lower (last (py_split (py_str ''-'') (Locale v))) = lower (the country))))"
proof (intro conjI impI)
  show "select_voice lower k vp lang gender country vs = default_voice \<or>
    (\<exists>v\<in>set vs. select_voice lower k vp lang gender country vs = ShortName v)"
  proof (cases "truthy vp")
    case True
    then obtain s where "vp = Some s" "s \<noteq> []"
      by (auto simp: truthy_def split: option.splits)
    then show ?thesis using smart_match_member by (simp add: sel_explicit)
  next
    case False
    let ?cs = "candidates lower lang gender country vs"
    show ?thesis
    proof (cases "(truthy lang \<or> truthy gender \<or> truthy country) \<and> ?cs \<noteq> []")
      case True
      then have "?cs ! (k mod length ?cs) \<in> set ?cs" by simp
      then have "?cs ! (k mod length ?cs) \<in> set vs" using candidates_sound by blast
      with True False show ?thesis by (auto simp: sel_absent Let_def)
    next
      case nothing: False
      with False show ?thesis by (auto simp: sel_absent Let_def)
    qed
  qed
next
  let ?cs = "candidates lower lang gender country vs"
  assume h: "\<not> truthy vp \<and> (truthy lang \<or> truthy gender \<or> truthy country) \<and> ?cs \<noteq> []"
  then have m: "?cs ! (k mod length ?cs) \<in> set ?cs" by simp
  from h have "select_voice lower k vp lang gender country vs = ShortName (?cs ! (k mod length ?cs))"
    by (auto simp: sel_absent Let_def)
  with candidates_sound [OF m]
  show "\<exists>v\<in>set vs. select_voice lower k vp lang gender country vs = ShortName v \<and>
         (truthy lang \<longrightarrow> prefix (lower (the lang)) (lower (Locale v))) \<and>
         (truthy gender \<longrightarrow> lower (Gender v) = lower (the gender)) \<and>
         (truthy country \<longrightarrow>
            lower (last (py_split (py_str ''-'') (Locale v))) = lower (the country))"
    by blast
qed

theorem selected_voice_in_catalog_witness:
  "candidates ascii_lower (Some (py_str ''fr'')) (Some (py_str ''female'')) (Some (py_str ''FR''))
     [aria, guy, denise] = [denise] \<and>
   (\<exists>v\<in>set [aria, guy, denise].
      select_voice ascii_lower 3 None (Some (py_str ''fr'')) (Some (py_str ''female''))
        (Some (py_str ''FR'')) [aria, guy, denise] = ShortName v \<and>
      prefix (ascii_lower (py_str ''fr'')) (ascii_lower (Locale v)) \<and>
      ascii_lower (Gender v) = ascii_lower (py_str ''female'') \<and>
      ascii_lower (last (py_split (py_str ''-'') (Locale v))) = ascii_lower (py_str ''FR''))"
proof -
  have c: "candidates ascii_lower (Some (py_str ''fr'')) (Some (py_str ''female''))
      (Some (py_str ''FR'')) [aria, guy, denise] = [denise]"
    by (simp add: candidates_def by_lang_def by_gender_def by_country_def aria_def guy_def
        denise_def ascii_lower_def py_str_def split1_Cons split1_Nil)
  have t: "\<not> truthy None" "truthy (Some (py_str ''fr''))" "truthy (Some (py_str ''female''))"
    "truthy (Some (py_str ''FR''))"
    by (simp_all add: truthy_def py_str_def)
  show ?thesis
    using c t selected_voice_in_catalog [of ascii_lower 3 None "Some (py_str ''fr'')"
        "Some (py_str ''female'')" "Some (py_str ''FR'')" "[aria, guy, denise]"]
    by auto
qed

section \<open>The endpoint on requests\<close>

lemma voice_key:
  "py_str ''voice'' \<noteq> py_str ''text''" "py_str ''voice'' \<noteq> py_str ''lang''"
  "py_str ''voice'' \<noteq> py_str ''gender''" "py_str ''voice'' \<noteq> py_str ''country''"
  "py_str ''voice'' \<noteq> py_str ''rate''"
  by (simp_all add: py_str_def)

lemma hello: "py_str ''Hello'' \<noteq> []"
  by (simp add: py_str_def)

lemma params_query:
  "py_or (args req_query (py_str ''text'')) (form req_query (py_str ''text'')) =
     Some (py_str ''Hello'')"
  "py_or (args req_query (py_str ''voice'')) (form req_query (py_str ''voice'')) = None"
  "args req_query (py_str ''lang'') = Some (py_str ''fr'')"
  "args req_query (py_str ''gender'') = None"
  "args req_query (py_str ''country'') = None"
  "args req_query (py_str ''rate'') = None"
  by (simp_all add: req_query_def py_or_def truthy_def py_str_def)

lemma params_form:
  "py_or (args req_form (py_str ''text'')) (form req_form (py_str ''text'')) =
     Some (py_str ''Hello'')"
  "py_or (args req_form (py_str ''voice'')) (form req_form (py_str ''voice'')) = None"
  "args req_form (py_str ''lang'') = None"
  "args req_form (py_str ''gender'') = None"
  "args req_form (py_str ''country'') = None"
  "args req_form (py_str ''rate'') = None"
  by (simp_all add: req_form_def py_or_def truthy_def py_str_def)

lemma params_form_voice:
  "py_or (args req_form_voice (py_str ''text'')) (form req_form_voice (py_str ''text'')) =
     Some (py_str ''Hello'')"
  "py_or (args req_form_voice (py_str ''voice'')) (form req_form_voice (py_str ''voice'')) =
     Some (py_str ''Denise'')"
  "args req_form_voice (py_str ''lang'') = None"
  "args req_form_voice (py_str ''gender'') = None"
  "args req_form_voice (py_str ''country'') = None"
  "args req_form_voice (py_str ''rate'') = None"
  by (simp_all add: req_form_voice_def py_or_def truthy_def py_str_def)

lemma sel_denise:
  "select_voice ascii_lower k (Some (py_str ''Denise'')) lang gender country [aria, guy, denise] =
     py_str ''fr-FR-DeniseNeural''"
  by (simp add: select_voice_def truthy_def aria_def guy_def denise_def ascii_lower_def py_str_def
      py_strip_def isspace_def replace_Cons replace_Nil sublist_code)

lemma mode_examples:
  "usage_mode req_query = py_str ''API''" "usage_mode req_form = py_str ''API''"
  "usage_mode req_form_voice = py_str ''API''"
  by (simp_all add: usage_mode_def req_query_def req_form_def req_form_voice_def truthy_def)

lemma engine_fields:
  "list_voices engine_ok = Inr [aria, guy, denise]" "pick engine_ok = 0"
  "list_voices engine_render_fails = Inr [aria, guy, denise]" "pick engine_render_fails = 0"
  by (simp_all add: engine_ok_def engine_render_fails_def)

lemma save_fresh:
  "save_stats engine_ok (py_str ''API'') fresh_world =
     \<lparr>stats = Holds (JObj [(py_str ''total'', JInt 1), (py_str ''api'', JInt 1),
                           (py_str ''ui'', JInt 0)]),
      stats_opens = 1, files = Map.empty\<rparr>"
  "save_stats engine_render_fails (py_str ''API'') fresh_world =
     \<lparr>stats = Holds (JObj [(py_str ''total'', JInt 1), (py_str ''api'', JInt 1),
                           (py_str ''ui'', JInt 0)]),
      stats_opens = 1, files = Map.empty\<rparr>"
  by (simp_all add: save_stats_def load_stats_def engine_render_fails_def engine_ok_def
      fresh_world_def zero_stats_def bump_stats_def incr_key_def getitem_def add_one_def
      setitem_def raise_bind_def py_str_def)

lemma gen_ok:
  "header_ok v \<Longrightarrow> generate_audio engine_ok t v r w =
     (audio_response [73, 68, 51] v,
      w\<lparr>files := (files w)(py_str ''/tmp/tmpk3x9.mp3'' := None)\<rparr>)"
  by (simp add: generate_audio_def engine_ok_def)

lemma voices_header_ok:
  "header_ok (py_str ''fr-FR-DeniseNeural'')" "header_ok (py_str ''en-US-AriaNeural'')"
  by (simp_all add: header_ok_def py_str_def)

lemma gen_fail:
  "generate_audio engine_render_fails t v r w =
     (json_error 500 (py_str ''No audio was received''),
      w\<lparr>files := (files w)(py_str ''/tmp/tmpk3x9.mp3'' \<mapsto> [])\<rparr>)"
  by (simp add: generate_audio_def engine_render_fails_def engine_ok_def message_def)

text \<open>
  C6. When neither the query string nor the form body has a non-empty \<open>text\<close>, the
  response is 400 with the JSON body \<open>{"error": "Missing 'text' parameter"}\<close>, and the
  state is the one before the request: the stats file is the same and was not opened.
\<close>

theorem missing_text_rejected:
  assumes "\<not> truthy (args r (py_str ''text''))" and "\<not> truthy (form r (py_str ''text''))"
  shows "tts_api lower e r w =
     (\<lparr>status = 400, mimetype = py_str ''application/json'',
       body = JsonBody [(py_str ''error'', py_str ''Missing 'text' parameter'')],
       headers = []\<rparr>, w)"
  using assms by (simp add: tts_api_def Let_def py_or_def json_error_def)

theorem missing_text_rejected_witness:
  "\<not> truthy (args (req_query\<lparr>args := [py_str ''text'' \<mapsto> []]\<rparr>) (py_str ''text'')) \<and>
   \<not> truthy (form (req_query\<lparr>args := [py_str ''text'' \<mapsto> []]\<rparr>) (py_str ''text'')) \<and>
   tts_api ascii_lower engine_ok (req_query\<lparr>args := [py_str ''text'' \<mapsto> []]\<rparr>) fresh_world =
     (\<lparr>status = 400, mimetype = py_str ''application/json'',
       body = JsonBody [(py_str ''error'', py_str ''Missing 'text' parameter'')],
       headers = []\<rparr>, fresh_world)"
proof -
  have a: "\<not> truthy (args (req_query\<lparr>args := [py_str ''text'' \<mapsto> []]\<rparr>) (py_str ''text''))"
    by (simp add: truthy_def)
  have b: "\<not> truthy (form (req_query\<lparr>args := [py_str ''text'' \<mapsto> []]\<rparr>) (py_str ''text''))"
    by (simp add: truthy_def req_query_def)
  show ?thesis
    using a b missing_text_rejected [OF a b, of ascii_lower engine_ok fresh_world] by blast
qed

text \<open>
  C10. A \<open>voice\<close> that is absent or empty in the query string and in the form body is the
  same as no \<open>voice\<close> at all: the request is answered as the request without it, and the
  resolver, given the empty string, takes the filter branch or the default and does not
  run the substring match.
\<close>

theorem empty_voice_as_absent:
  "(\<not> truthy (args r (py_str ''voice'')) \<and> \<not> truthy (form r (py_str ''voice'')) \<longrightarrow>
      tts_api lower e r w =
        tts_api lower e (r\<lparr>args := (args r)(py_str ''voice'' := None),
                           form := (form r)(py_str ''voice'' := None)\<rparr>) w) \<and>
   select_voice lower k (Some []) lang gender country vs =
     select_voice lower k None lang gender country vs \<and>
   select_voice lower k (Some []) lang gender country vs =
     (if truthy lang \<or> truthy gender \<or> truthy country then
        (let cs = candidates lower lang gender country vs
         in if cs \<noteq> [] then ShortName (cs ! (k mod length cs)) else default_voice)
      else default_voice)"
proof (intro conjI impI)
  assume h: "\<not> truthy (args r (py_str ''voice'')) \<and> \<not> truthy (form r (py_str ''voice''))"
  define r' where "r' = r\<lparr>args := (args r)(py_str ''voice'' := None),
                          form := (form r)(py_str ''voice'' := None)\<rparr>"
  have same: "args r' (py_str ''text'') = args r (py_str ''text'')"
    "form r' (py_str ''text'') = form r (py_str ''text'')"
    "args r' (py_str ''lang'') = args r (py_str ''lang'')"
    "args r' (py_str ''gender'') = args r (py_str ''gender'')"
    "args r' (py_str ''country'') = args r (py_str ''country'')"
    "args r' (py_str ''rate'') = args r (py_str ''rate'')"
    "referrer r' = referrer r" "host r' = host r"
    using voice_key by (simp_all add: r'_def)
  have falsy: "\<not> truthy (py_or (args r (py_str ''voice'')) (form r (py_str ''voice'')))"
    using h by (simp add: py_or_def)
  have none: "py_or (args r' (py_str ''voice'')) (form r' (py_str ''voice'')) = None"
    by (simp add: r'_def py_or_def truthy_def)
  have sel:
    "select_voice lower i (py_or (args r' (py_str ''voice'')) (form r' (py_str ''voice''))) l g c us =
     select_voice lower i (py_or (args r (py_str ''voice'')) (form r (py_str ''voice''))) l g c us"
    for i l g c us
    unfolding none by (rule sel_falsy [OF falsy, symmetric])
  have "tts_api lower e r' w = tts_api lower e r w"
    unfolding tts_api_def usage_mode_def Let_def by (simp only: same sel)
  then show "tts_api lower e r w =
        tts_api lower e (r\<lparr>args := (args r)(py_str ''voice'' := None),
                           form := (form r)(py_str ''voice'' := None)\<rparr>) w"
    by (simp only: r'_def)
next
  show "select_voice lower k (Some []) lang gender country vs =
     select_voice lower k None lang gender country vs"
    by (rule sel_falsy) (simp add: truthy_def)
next
  show "select_voice lower k (Some []) lang gender country vs =
     (if truthy lang \<or> truthy gender \<or> truthy country then
        (let cs = candidates lower lang gender country vs
         in if cs \<noteq> [] then ShortName (cs ! (k mod length cs)) else default_voice)
      else default_voice)"
    by (rule sel_absent) (simp add: truthy_def)
qed

theorem empty_voice_as_absent_witness:
  "tts_api ascii_lower engine_ok
     (req_query\<lparr>args := (args req_query)(py_str ''voice'' \<mapsto> [])\<rparr>) fresh_world =
   tts_api ascii_lower engine_ok
     (req_query\<lparr>args := (args req_query)(py_str ''voice'' \<mapsto> [])\<rparr>
        \<lparr>args := (args (req_query\<lparr>args := (args req_query)(py_str ''voice'' \<mapsto> [])\<rparr>))
                    (py_str ''voice'' := None),
          form := (form (req_query\<lparr>args := (args req_query)(py_str ''voice'' \<mapsto> [])\<rparr>))
                    (py_str ''voice'' := None)\<rparr>) fresh_world \<and>
   select_voice ascii_lower 0 (Some []) None None None [aria, guy, denise] =
     select_voice ascii_lower 0 None None None None [aria, guy, denise]"
proof -
  let ?r = "req_query\<lparr>args := (args req_query)(py_str ''voice'' \<mapsto> [])\<rparr>"
  note th = empty_voice_as_absent [of ?r ascii_lower engine_ok fresh_world 0 None None None
      "[aria, guy, denise]"]
  have a: "\<not> truthy (args ?r (py_str ''voice'')) \<and> \<not> truthy (form ?r (py_str ''voice''))"
    by (simp add: truthy_def req_query_def)
  show ?thesis
    by (rule conjI, rule th [THEN conjunct1, THEN mp, OF a],
        rule th [THEN conjunct2, THEN conjunct1])
qed

text \<open>
  C7 fails on the code: \<open>lang\<close>, \<open>gender\<close>, \<open>country\<close> and \<open>rate\<close> are read from the query
  string only. The same \<open>text=Hello\<close>, \<open>lang=fr\<close> select the French voice when sent in the
  query string and the default voice when sent in the form body, whereas \<open>text\<close> and
  \<open>voice\<close> sent in the form body are honoured.
\<close>

theorem form_lang_ignored:
  "fst (tts_api ascii_lower engine_ok req_query fresh_world) =
     audio_response [73, 68, 51] (py_str ''fr-FR-DeniseNeural'') \<and>
   fst (tts_api ascii_lower engine_ok req_form fresh_world) =
     audio_response [73, 68, 51] (py_str ''en-US-AriaNeural'') \<and>
   py_str ''fr-FR-DeniseNeural'' \<noteq> py_str ''en-US-AriaNeural'' \<and>
   fst (tts_api ascii_lower engine_ok req_form_voice fresh_world) =
     audio_response [73, 68, 51] (py_str ''fr-FR-DeniseNeural'')"
proof (intro conjI)
  show "fst (tts_api ascii_lower engine_ok req_query fresh_world) =
     audio_response [73, 68, 51] (py_str ''fr-FR-DeniseNeural'')"
    by (simp add: tts_api_def Let_def params_query mode_examples save_fresh engine_fields sel_fr
        gen_ok voices_header_ok truthy_def hello)
  show "fst (tts_api ascii_lower engine_ok req_form fresh_world) =
     audio_response [73, 68, 51] (py_str ''en-US-AriaNeural'')"
    by (simp add: tts_api_def Let_def params_form mode_examples save_fresh engine_fields sel_none
        gen_ok voices_header_ok truthy_def hello)
  show "py_str ''fr-FR-DeniseNeural'' \<noteq> py_str ''en-US-AriaNeural''"
    by (simp add: py_str_def)
  show "fst (tts_api ascii_lower engine_ok req_form_voice fresh_world) =
     audio_response [73, 68, 51] (py_str ''fr-FR-DeniseNeural'')"
    by (simp add: tts_api_def Let_def params_form_voice mode_examples save_fresh engine_fields
        sel_denise gen_ok voices_header_ok truthy_def hello)
qed

text \<open>
  C1 fails on the code: \<open>os.remove\<close> is reached only when rendering and reading succeed.
  When the engine fails to render, the request ends with a 500 response and the transient
  file is still in the scratch directory; on the successful run it is gone.
\<close>

theorem transient_file_left_behind:
  "status (fst (tts_api ascii_lower engine_render_fails req_query fresh_world)) = 500 \<and>
   files (snd (tts_api ascii_lower engine_render_fails req_query fresh_world))
     (py_str ''/tmp/tmpk3x9.mp3'') = Some [] \<and>
   files (snd (tts_api ascii_lower engine_ok req_query fresh_world))
     (py_str ''/tmp/tmpk3x9.mp3'') = None"
proof (intro conjI)
  show "status (fst (tts_api ascii_lower engine_render_fails req_query fresh_world)) = 500"
    by (simp add: tts_api_def Let_def params_query mode_examples save_fresh engine_fields sel_fr
        gen_fail truthy_def hello json_error_def)
  show "files (snd (tts_api ascii_lower engine_render_fails req_query fresh_world))
     (py_str ''/tmp/tmpk3x9.mp3'') = Some []"
    by (simp add: tts_api_def Let_def params_query mode_examples save_fresh engine_fields sel_fr
        gen_fail truthy_def hello)
  show "files (snd (tts_api ascii_lower engine_ok req_query fresh_world))
     (py_str ''/tmp/tmpk3x9.mp3'') = None"
    by (simp add: tts_api_def Let_def params_query mode_examples save_fresh engine_fields sel_fr
        gen_ok voices_header_ok truthy_def hello)
qed

end
